theory Spec2Isabelle
  imports Complex_Main "HOL-Library.AList"
begin

section \<open>The shopping cart workflow (terminos\_y\_condiciones)\<close>

text \<open>
  The development embeds \<^verbatim>\<open>shared.py\<close>, \<^verbatim>\<open>workflows.py\<close> and
  \<^verbatim>\<open>activities.py\<close>. Python strings are \<^typ>\<open>string\<close> (UTF-8 bytes for the
  accented letters of the messages), \<^verbatim>\<open>int\<close> is \<^typ>\<open>int\<close>, and the prices, which
  the source declares \<^verbatim>\<open>float\<close>, are exact numbers of type \<^typ>\<open>real\<close>: no
  statement below uses a law of arithmetic that rounding would break, only the shape of
  the computations. A Python \<^verbatim>\<open>dict\<close> is an association list in insertion order
  with distinct keys: assigning to a new key appends, assigning to a present key keeps its
  place, \<^verbatim>\<open>del\<close> removes the entry.
\<close>

subsection \<open>shared.py\<close>

datatype EstadoCarrito = ABIERTO | PAGADO | ENVIADO | ENTREGADO | CANCELADO | ABANDONADO

record Item =
  item_id :: string
  nombre :: string
  precio :: real
  cantidad :: int

text \<open>
  The value stored under an item id in \<^verbatim>\<open>items_carrito\<close>: the dict with the keys
  \<^verbatim>\<open>"nombre"\<close>, \<^verbatim>\<open>"precio"\<close>, \<^verbatim>\<open>"cantidad"\<close> and \<^verbatim>\<open>"subtotal"\<close>.
\<close>

record linea =
  nombre_linea :: string
  precio_linea :: real
  cantidad_linea :: int
  subtotal :: real

type_synonym items = "(string \<times> linea) list"

text \<open>A JSON object with string values: the shipment payload and the failure record.\<close>

type_synonym payload = "(string \<times> string) list"

record EnvioRequest =
  req_usuario_id :: string
  req_items :: items
  req_direccion :: string

definition direccion_por_defecto :: string where
  "direccion_por_defecto = ''Direcci'' @ [CHR 0xC3, CHR 0xB3] @ ''n por defecto''"

subsection \<open>workflows.py: the fields of the workflow and its handlers\<close>

record workflow =
  carrito_id :: string
  usuario_id :: string
  terminos_aceptados :: bool
  items_carrito :: items
  total_carrito :: real
  estado :: EstadoCarrito
  envio_resultado :: payload

definition init :: workflow where
  "init = \<lparr>carrito_id = [], usuario_id = [], terminos_aceptados = False, items_carrito = [],
           total_carrito = 0, estado = ABIERTO, envio_resultado = []\<rparr>"

text \<open>Python's \<^verbatim>\<open>sum\<close>: a left fold from 0 over the values in the dict's order.\<close>

definition sum_py :: "real list \<Rightarrow> real" where
  "sum_py xs = foldl (+) 0 xs"

definition recalcular_total :: "workflow \<Rightarrow> workflow" where
  "recalcular_total w = w\<lparr>total_carrito := sum_py (map (subtotal \<circ> snd) (items_carrito w))\<rparr>"

text \<open>\<^verbatim>\<open>item_id in self.items_carrito\<close>\<close>

definition contiene :: "items \<Rightarrow> string \<Rightarrow> bool" where
  "contiene d k = (map_of d k \<noteq> None)"

text \<open>
  The signal \<^verbatim>\<open>agregar_item_carrito\<close>. On a present id only the entry's
  \<^verbatim>\<open>"cantidad"\<close> is increased; on a new id the four-key dict is stored.
\<close>

definition agregar_item_carrito :: "Item \<Rightarrow> workflow \<Rightarrow> workflow" where
  "agregar_item_carrito item w =
     (if estado w \<noteq> ABIERTO then w
      else recalcular_total
        (if contiene (items_carrito w) (item_id item)
         then w\<lparr>items_carrito :=
                  AList.map_entry (item_id item)
                    (\<lambda>l. l\<lparr>cantidad_linea := cantidad_linea l + cantidad item\<rparr>)
                    (items_carrito w)\<rparr>
         else w\<lparr>items_carrito :=
                  AList.update (item_id item)
                    \<lparr>nombre_linea = nombre item, precio_linea = precio item,
                     cantidad_linea = cantidad item,
                     subtotal = precio item * of_int (cantidad item)\<rparr>
                    (items_carrito w)\<rparr>))"

text \<open>
  \<^verbatim>\<open>ApplicationError(message, type=None, non_retryable=False)\<close> of the host library.
\<close>

datatype ApplicationError =
  ApplicationError (message: string) (type: "string option") (non_retryable: bool)

text \<open>
  The member of the \<^verbatim>\<open>str\<close> enumeration inside a formatted message, rendered by
  its value, as \<^verbatim>\<open>format\<close> does for a \<^verbatim>\<open>str\<close> mixin before Python 3.11 (later
  versions render the qualified member name). Nothing below depends on which.
\<close>

fun str_estado :: "EstadoCarrito \<Rightarrow> string" where
  "str_estado ABIERTO = ''ABIERTO''"
| "str_estado PAGADO = ''PAGADO''"
| "str_estado ENVIADO = ''ENVIADO''"
| "str_estado ENTREGADO = ''ENTREGADO''"
| "str_estado CANCELADO = ''CANCELADO''"
| "str_estado ABANDONADO = ''ABANDONADO''"

record respuesta_update =
  mensaje :: string
  item :: string
  nuevo_total :: real

text \<open>
  The update \<^verbatim>\<open>agregar_item_seguro\<close> returns to its caller either the raised error
  or the answer, and in both cases leaves a workflow behind: the pair's second component.
\<close>

definition agregar_item_seguro ::
  "Item \<Rightarrow> workflow \<Rightarrow> (ApplicationError + respuesta_update) \<times> workflow" where
  "agregar_item_seguro it w =
     (if estado w \<noteq> ABIERTO then
        (Inl (ApplicationError
               (''No se pueden agregar items. El carrito est'' @ [CHR 0xC3, CHR 0xA1]
                  @ '' en estado: '' @ str_estado (estado w))
               None False), w)
      else if cantidad it > 5 then
        (Inl (ApplicationError
               (''Stock insuficiente para '' @ nombre it @ ''. M'' @ [CHR 0xC3, CHR 0xA1]
                  @ ''ximo disponible: 5'')
               (Some ''StockInsuficiente'') False), w)
      else
        (let w' = agregar_item_carrito it w
         in (Inr \<lparr>mensaje = ''Item agregado correctamente'', item = nombre it,
                  nuevo_total = total_carrito w'\<rparr>, w')))"

definition remover_item_carrito :: "string \<Rightarrow> workflow \<Rightarrow> workflow" where
  "remover_item_carrito k w =
     (if estado w \<noteq> ABIERTO then w
      else if contiene (items_carrito w) k
        then recalcular_total (w\<lparr>items_carrito := AList.delete k (items_carrito w)\<rparr>)
        else w)"

definition aceptar_terminos :: "workflow \<Rightarrow> workflow" where
  "aceptar_terminos w = (if estado w \<noteq> ABIERTO then w else w\<lparr>terminos_aceptados := True\<rparr>)"

definition completar_compra :: "workflow \<Rightarrow> workflow" where
  "completar_compra w =
     (if estado w = ABIERTO
      then (if \<not> terminos_aceptados w then w else w\<lparr>estado := PAGADO\<rparr>)
      else w)"

definition confirmar_recepcion :: "workflow \<Rightarrow> workflow" where
  "confirmar_recepcion w = (if estado w = ENVIADO then w\<lparr>estado := ENTREGADO\<rparr> else w)"

text \<open>The query \<^verbatim>\<open>obtener_estado\<close> reads four fields and changes nothing.\<close>

definition obtener_estado :: "workflow \<Rightarrow> items \<times> real \<times> EstadoCarrito \<times> bool" where
  "obtener_estado w = (items_carrito w, total_carrito w, estado w, terminos_aceptados w)"

text \<open>The dict built by \<^verbatim>\<open>_estado_final\<close>.\<close>

record resultado_final =
  final_carrito_id :: string
  final_usuario_id :: string
  final_terminos_aceptados :: bool
  final_items_carrito :: items
  final_total_carrito :: real
  detalles_envio :: payload
  estado_carrito :: EstadoCarrito
  resultado_workflow :: string

definition estado_final :: "workflow \<Rightarrow> string \<Rightarrow> resultado_final" where
  "estado_final w r =
     \<lparr>final_carrito_id = carrito_id w, final_usuario_id = usuario_id w,
      final_terminos_aceptados = terminos_aceptados w,
      final_items_carrito = items_carrito w, final_total_carrito = total_carrito w,
      detalles_envio = envio_resultado w, estado_carrito = estado w,
      resultado_workflow = r\<rparr>"

subsection \<open>activities.py: the shipment activity\<close>

text \<open>
  What \<^verbatim>\<open>client.post\<close> gives for one attempt: a response, or a raised
  \<^verbatim>\<open>httpx.RequestError\<close> with its text. A response carries its status code, its
  \<^verbatim>\<open>text\<close>, the text the client library gives the \<^verbatim>\<open>HTTPStatusError\<close> it raises
  for this response, and what \<^verbatim>\<open>response.json()\<close> yields: the decoded object, or
  the text of the decoding error.
\<close>

datatype resultado_post =
    Respuesta (status_code: nat) (response_text: string) (texto_error: string)
      (json: "string + payload")
  | Fallo_red string

text \<open>The exceptions that leave the activity.\<close>

datatype excepcion =
    App ApplicationError
  | HTTPStatusError string nat string
  | RequestError string
  | JSONDecodeError string

text \<open>
  \<^verbatim>\<open>response.raise_for_status()\<close>, as the source's comment on it says: it raises for a
  status of 400 or more.
\<close>

definition raise_for_status :: "nat \<Rightarrow> bool" where
  "raise_for_status st = (400 \<le> st)"

fun despachar_envio_activity :: "EnvioRequest \<Rightarrow> resultado_post \<Rightarrow> excepcion + payload" where
  "despachar_envio_activity request (Fallo_red m) = Inl (RequestError m)"
| "despachar_envio_activity request (Respuesta st tx te js) =
     (if raise_for_status st then
        (if 400 \<le> st \<and> st < 500
         then Inl (App (ApplicationError (''Error de API no reintentable: '' @ tx)
                          (Some ''NonRetryableAPIError'') True))
         else Inl (HTTPStatusError te st tx))
      else (case js of Inl m \<Rightarrow> Inl (JSONDecodeError m) | Inr p \<Rightarrow> Inr p))"

subsection \<open>The host's execution of the activity under the workflow's retry policy\<close>

text \<open>
  The \<^verbatim>\<open>RetryPolicy\<close> that \<^verbatim>\<open>run\<close> passes to \<^verbatim>\<open>start_activity\<close>
  (intervals in seconds).
\<close>

record RetryPolicy =
  initial_interval :: nat
  backoff_coefficient :: nat
  maximum_interval :: nat
  maximum_attempts :: nat

definition retry_policy :: RetryPolicy where
  "retry_policy = \<lparr>initial_interval = 2, backoff_coefficient = 2, maximum_interval = 10,
                    maximum_attempts = 3\<rparr>"

datatype RetryState = MAXIMUM_ATTEMPTS_REACHED | NON_RETRYABLE_FAILURE

record ActivityError =
  cause :: ApplicationError
  retry_state :: RetryState

text \<open>
  Modelled from the spec: the durable-execution host, which is not part of the repository.
  A failure that leaves the activity reaches the workflow as an application failure: an
  \<^verbatim>\<open>ApplicationError\<close> as it is, any other exception with its text as message, its
  class name as type, and retryable.
\<close>

fun a_fallo :: "excepcion \<Rightarrow> ApplicationError" where
  "a_fallo (App e) = e"
| "a_fallo (HTTPStatusError m st tx) = ApplicationError m (Some ''HTTPStatusError'') False"
| "a_fallo (RequestError m) = ApplicationError m (Some ''RequestError'') False"
| "a_fallo (JSONDecodeError m) = ApplicationError m (Some ''JSONDecodeError'') False"

text \<open>
  \<^verbatim>\<open>str\<close> of an application failure, as the host library renders it: the message,
  with the type and a colon before it when the failure has a type.
\<close>

definition str_ApplicationError :: "ApplicationError \<Rightarrow> string" where
  "str_ApplicationError e =
     (case type e of None \<Rightarrow> message e | Some t \<Rightarrow> t @ '': '' @ message e)"

text \<open>
  Modelled from the spec: the host's retry loop (section 4.3: a non-retryable failure is
  never retried, a retryable one is retried up to the maximum number of attempts, and
  exhausting them is a failure of its own kind). \<open>entorno n\<close> is what the endpoint does
  at the attempt after \<open>n\<close> earlier ones; the result comes with the number of attempts
  made. The waits between attempts and the time limit of an attempt are not modelled.
\<close>

function ejecutar_actividad ::
  "EnvioRequest \<Rightarrow> (nat \<Rightarrow> resultado_post) \<Rightarrow> nat \<Rightarrow> (ActivityError + payload) \<times> nat" where
  "ejecutar_actividad request entorno n =
     (case despachar_envio_activity request (entorno n) of
        Inr p \<Rightarrow> (Inr p, Suc n)
      | Inl e \<Rightarrow>
          if non_retryable (a_fallo e)
          then (Inl \<lparr>cause = a_fallo e, retry_state = NON_RETRYABLE_FAILURE\<rparr>, Suc n)
          else if maximum_attempts retry_policy \<le> Suc n
          then (Inl \<lparr>cause = a_fallo e, retry_state = MAXIMUM_ATTEMPTS_REACHED\<rparr>, Suc n)
          else ejecutar_actividad request entorno (Suc n))"
  by pat_completeness auto
termination
  by (relation "measure (\<lambda>(request, entorno, n). maximum_attempts retry_policy - n)") auto

declare ejecutar_actividad.simps [simp del]

subsection \<open>workflows.py: the method \<open>run\<close> as a machine over events\<close>

text \<open>
  \<^verbatim>\<open>run\<close> is a coroutine that suspends at three places: the wait for payment or
  cancellation with its timeout of 30 minutes, the wait for the activity, and the wait for
  the delivery. Between two suspensions the host runs one handler at a time. The phase
  records where \<^verbatim>\<open>run\<close> is suspended, or the dict it has returned.
\<close>

datatype fase_run = EsperandoPago | EsperandoEnvio | EsperandoEntrega | Terminado resultado_final

text \<open>
  An execution: the fields of the workflow object, the phase of \<^verbatim>\<open>run\<close>, and the
  requests of the activities started so far.
\<close>

record ejecucion =
  self :: workflow
  fase :: fase_run
  actividades :: "EnvioRequest list"

datatype comando =
    Agregar_item_carrito Item
  | Agregar_item_seguro Item
  | Remover_item_carrito string
  | Aceptar_terminos
  | Completar_compra
  | Confirmar_recepcion

fun aplicar :: "comando \<Rightarrow> workflow \<Rightarrow> workflow" where
  "aplicar (Agregar_item_carrito it) w = agregar_item_carrito it w"
| "aplicar (Agregar_item_seguro it) w = snd (agregar_item_seguro it w)"
| "aplicar (Remover_item_carrito k) w = remover_item_carrito k w"
| "aplicar Aceptar_terminos w = aceptar_terminos w"
| "aplicar Completar_compra w = completar_compra w"
| "aplicar Confirmar_recepcion w = confirmar_recepcion w"

text \<open>
  The events of an execution: a signal or update arrives, the timer of the first wait
  fires (\<^verbatim>\<open>asyncio.TimeoutError\<close>), or the activity resolves.
\<close>

datatype evento =
    Comando comando
  | Timeout_30_minutos
  | Actividad_resuelta "ActivityError + payload"

text \<open>The prologue of \<^verbatim>\<open>run\<close>, up to the first wait.\<close>

definition iniciar :: "string \<Rightarrow> string \<Rightarrow> ejecucion" where
  "iniciar usuario workflow_id =
     \<lparr>self = init\<lparr>usuario_id := usuario,
                 carrito_id := ''carrito-'' @ usuario @ ''-'' @ workflow_id\<rparr>,
      fase = EsperandoPago, actividades = []\<rparr>"

text \<open>
  \<^verbatim>\<open>run\<close> resumes when the condition it waits for holds: after the first wait it
  returns on \<open>CANCELADO\<close> and otherwise starts the activity; after the last wait it
  returns.
\<close>

definition continuar :: "ejecucion \<Rightarrow> ejecucion" where
  "continuar x =
     (case fase x of
        EsperandoPago \<Rightarrow>
          if estado (self x) = PAGADO \<or> estado (self x) = CANCELADO then
            (if estado (self x) = CANCELADO
             then x\<lparr>fase := Terminado (estado_final (self x) ''CANCELADO_POR_USUARIO'')\<rparr>
             else x\<lparr>fase := EsperandoEnvio,
                    actividades := actividades x @
                      [\<lparr>req_usuario_id = usuario_id (self x), req_items = items_carrito (self x),
                        req_direccion = direccion_por_defecto\<rparr>]\<rparr>)
          else x
      | EsperandoEntrega \<Rightarrow>
          if estado (self x) = ENTREGADO
          then x\<lparr>fase := Terminado (estado_final (self x) ''COMPLETADO_ENTREGADO'')\<rparr>
          else x
      | _ \<Rightarrow> x)"

definition al_vencer :: "ejecucion \<Rightarrow> ejecucion" where
  "al_vencer x =
     (let w = (self x)\<lparr>estado := ABANDONADO\<rparr>
      in x\<lparr>self := w, fase := Terminado (estado_final w ''ABANDONADO_TIMEOUT'')\<rparr>)"

definition al_resolver :: "ActivityError + payload \<Rightarrow> ejecucion \<Rightarrow> ejecucion" where
  "al_resolver r x =
     (case r of
        Inr p \<Rightarrow>
          continuar (x\<lparr>self := (self x)\<lparr>envio_resultado := p, estado := ENVIADO\<rparr>,
                       fase := EsperandoEntrega\<rparr>)
      | Inl e \<Rightarrow>
          (let w = (self x)\<lparr>envio_resultado :=
                            [(''status'', ''FALLIDO''),
                             (''error'', str_ApplicationError (cause e))]\<rparr>
           in x\<lparr>self := w, fase := Terminado (estado_final w ''ENVIO_FALLIDO'')\<rparr>))"

text \<open>
  One event. A finished workflow handles nothing more; the timer only exists during the
  first wait and the activity only during the second.
\<close>

definition paso :: "evento \<Rightarrow> ejecucion \<Rightarrow> ejecucion" where
  "paso ev x =
     (case fase x of
        Terminado r \<Rightarrow> x
      | _ \<Rightarrow>
        (case ev of
           Comando c \<Rightarrow> continuar (x\<lparr>self := aplicar c (self x)\<rparr>)
         | Timeout_30_minutos \<Rightarrow> if fase x = EsperandoPago then al_vencer x else x
         | Actividad_resuelta r \<Rightarrow> if fase x = EsperandoEnvio then al_resolver r x else x))"

definition ejecutar :: "evento list \<Rightarrow> ejecucion \<Rightarrow> ejecucion" where
  "ejecutar evs x = foldl (\<lambda>y ev. paso ev y) x evs"

subsection \<open>Vocabulary of the properties\<close>

text \<open>The total is the sum of the stored subtotals.\<close>

definition total_ok :: "workflow \<Rightarrow> bool" where
  "total_ok w = (total_carrito w = sum_py (map (subtotal \<circ> snd) (items_carrito w)))"

text \<open>The edges of the lifecycle graph of the specification (section 4.4).\<close>

fun transicion_ciclo :: "EstadoCarrito \<Rightarrow> EstadoCarrito \<Rightarrow> bool" where
  "transicion_ciclo ABIERTO PAGADO = True"
| "transicion_ciclo ABIERTO CANCELADO = True"
| "transicion_ciclo ABIERTO ABANDONADO = True"
| "transicion_ciclo PAGADO ENVIADO = True"
| "transicion_ciclo ENVIADO ENTREGADO = True"
| "transicion_ciclo a b = False"

text \<open>The distance of a state from \<open>ABIERTO\<close> along that graph.\<close>

fun rango :: "EstadoCarrito \<Rightarrow> nat" where
  "rango ABIERTO = 0"
| "rango PAGADO = 1"
| "rango CANCELADO = 1"
| "rango ABANDONADO = 1"
| "rango ENVIADO = 2"
| "rango ENTREGADO = 3"

text \<open>
  What holds of every execution that starts with \<open>iniciar\<close>: the phase of \<^verbatim>\<open>run\<close>
  fixes the state of the cart, and before the activity starts nothing has been written
  to \<^verbatim>\<open>envio_resultado\<close>.
\<close>

definition coherente :: "ejecucion \<Rightarrow> bool" where
  "coherente x =
     (case fase x of
        EsperandoPago \<Rightarrow> estado (self x) = ABIERTO \<and> envio_resultado (self x) = [] \<and> actividades x = []
      | EsperandoEnvio \<Rightarrow> estado (self x) = PAGADO
      | EsperandoEntrega \<Rightarrow> estado (self x) = ENVIADO
      | Terminado r \<Rightarrow> estado (self x) \<noteq> ABIERTO \<and> estado (self x) \<noteq> ENVIADO)"

text \<open>A response whose status is in the 4xx range.\<close>

fun es_4xx :: "resultado_post \<Rightarrow> bool" where
  "es_4xx (Respuesta st tx te js) = (400 \<le> st \<and> st < 500)"
| "es_4xx (Fallo_red m) = False"

text \<open>Concrete inputs for the examples below.\<close>

definition un_articulo :: Item where
  "un_articulo = \<lparr>item_id = ''a'', nombre = ''A'', precio = 10, cantidad = 1\<rparr>"

definition compra_pagada :: ejecucion where
  "compra_pagada =
     ejecutar [Comando Aceptar_terminos, Comando Completar_compra] (iniciar ''u'' ''w'')"

definition pedido :: EnvioRequest where
  "pedido = \<lparr>req_usuario_id = ''u'', req_items = [], req_direccion = direccion_por_defecto\<rparr>"

definition rechazo_400 :: "nat \<Rightarrow> resultado_post" where
  "rechazo_400 n = Respuesta 400 ''x'' ''Client error'' (Inl [])"

definition caido_503 :: "nat \<Rightarrow> resultado_post" where
  "caido_503 n = Respuesta 503 ''down'' ''Server error'' (Inl [])"

section \<open>Properties of the handlers\<close>

lemma total_ok_recalcular: "total_ok (recalcular_total w)"
  by (simp add: total_ok_def recalcular_total_def)

lemma total_ok_aplicar: "total_ok w \<Longrightarrow> total_ok (aplicar c w)"
  by (cases c)
     (simp_all add: agregar_item_carrito_def agregar_item_seguro_def remover_item_carrito_def
        aceptar_terminos_def completar_compra_def confirmar_recepcion_def
        total_ok_recalcular Let_def, simp_all add: total_ok_def)

lemma total_ok_aplicar_todos: "total_ok w \<Longrightarrow> total_ok (foldl (\<lambda>v c. aplicar c v) w cs)"
  by (induction cs arbitrary: w) (simp_all add: total_ok_aplicar)

lemma contiene_delete: "\<not> contiene (AList.delete k d) k"
  by (simp add: contiene_def AList.delete_conv')

text \<open>
  What a command can do to the state of the cart: nothing, or keep it \<open>ABIERTO\<close>
  without touching the shipment result, or one of the two moves of
  \<^verbatim>\<open>completar_compra\<close> and \<^verbatim>\<open>confirmar_recepcion\<close>.
\<close>

lemma aplicar_estado_cases:
  "aplicar c w = w
   \<or> (estado w = ABIERTO \<and> estado (aplicar c w) = ABIERTO
       \<and> envio_resultado (aplicar c w) = envio_resultado w)
   \<or> (estado w = ABIERTO \<and> aplicar c w = w\<lparr>estado := PAGADO\<rparr>)
   \<or> (estado w = ENVIADO \<and> aplicar c w = w\<lparr>estado := ENTREGADO\<rparr>)"
  by (cases c)
     (auto simp: agregar_item_carrito_def agregar_item_seguro_def remover_item_carrito_def
        aceptar_terminos_def completar_compra_def confirmar_recepcion_def
        recalcular_total_def Let_def)

lemma aplicar_cerrado: "estado w \<noteq> ABIERTO \<Longrightarrow> estado w \<noteq> ENVIADO \<Longrightarrow> aplicar c w = w"
  by (cases c)
     (simp_all add: agregar_item_carrito_def agregar_item_seguro_def remover_item_carrito_def
        aceptar_terminos_def completar_compra_def confirmar_recepcion_def)

text \<open>
  C1, evaluated on the code: adding the same article twice leaves a line of quantity 2
  and unit price 10 whose stored subtotal is still 10, and a total of 10. The branch for
  a present id increases \<^verbatim>\<open>"cantidad"\<close> and does not recompute \<^verbatim>\<open>"subtotal"\<close>,
  so the stored subtotal is not unit price times quantity.
\<close>

theorem agregar_repetido_subtotal_obsoleto:
  "map_of (items_carrito (agregar_item_carrito un_articulo
             (agregar_item_carrito un_articulo init))) ''a''
     = Some \<lparr>nombre_linea = ''A'', precio_linea = 10, cantidad_linea = 2, subtotal = 10\<rparr>
   \<and> total_carrito (agregar_item_carrito un_articulo
                      (agregar_item_carrito un_articulo init)) = 10
   \<and> subtotal (the (map_of (items_carrito (agregar_item_carrito un_articulo
                                   (agregar_item_carrito un_articulo init))) ''a''))
       \<noteq> precio_linea (the (map_of (items_carrito (agregar_item_carrito un_articulo
                                   (agregar_item_carrito un_articulo init))) ''a''))
          * of_int (cantidad_linea (the (map_of (items_carrito (agregar_item_carrito un_articulo
                                   (agregar_item_carrito un_articulo init))) ''a'')))"
  by (simp add: agregar_item_carrito_def init_def contiene_def recalcular_total_def
      un_articulo_def sum_py_def)

text \<open>
  C2: the update \<^verbatim>\<open>agregar_item_seguro\<close> raises an untyped \<^verbatim>\<open>ApplicationError\<close>
  when the cart is not \<open>ABIERTO\<close>; otherwise it raises one of type
  \<^verbatim>\<open>StockInsuficiente\<close> when the quantity asked for exceeds 5; in both cases the
  workflow, and so its items, total, accepted terms and state, is left as it was.
\<close>

theorem agregar_item_seguro_rechaza:
  "(estado w \<noteq> ABIERTO \<longrightarrow>
      agregar_item_seguro it w =
        (Inl (ApplicationError
               (''No se pueden agregar items. El carrito est'' @ [CHR 0xC3, CHR 0xA1]
                  @ '' en estado: '' @ str_estado (estado w))
               None False), w))
   \<and> (estado w = ABIERTO \<and> cantidad it > 5 \<longrightarrow>
      agregar_item_seguro it w =
        (Inl (ApplicationError
               (''Stock insuficiente para '' @ nombre it @ ''. M'' @ [CHR 0xC3, CHR 0xA1]
                  @ ''ximo disponible: 5'')
               (Some ''StockInsuficiente'') False), w))"
  by (simp add: agregar_item_seguro_def)

theorem agregar_item_seguro_rechaza_witness:
  "estado (init\<lparr>estado := PAGADO\<rparr>) \<noteq> ABIERTO
   \<and> type (projl (fst (agregar_item_seguro un_articulo (init\<lparr>estado := PAGADO\<rparr>)))) = None
   \<and> snd (agregar_item_seguro un_articulo (init\<lparr>estado := PAGADO\<rparr>)) = init\<lparr>estado := PAGADO\<rparr>
   \<and> estado init = ABIERTO \<and> cantidad (un_articulo\<lparr>cantidad := 6\<rparr>) > 5
   \<and> type (projl (fst (agregar_item_seguro (un_articulo\<lparr>cantidad := 6\<rparr>) init)))
       = Some ''StockInsuficiente''
   \<and> snd (agregar_item_seguro (un_articulo\<lparr>cantidad := 6\<rparr>) init) = init"
  using agregar_item_seguro_rechaza [of "init\<lparr>estado := PAGADO\<rparr>" un_articulo]
    agregar_item_seguro_rechaza [of init "un_articulo\<lparr>cantidad := 6\<rparr>"]
  by (simp add: init_def un_articulo_def)

text \<open>
  C3: after every sequence of commands applied to a new cart, among them every sequence
  of \<^verbatim>\<open>agregar_item_carrito\<close> and \<^verbatim>\<open>remover_item_carrito\<close>, the total equals the
  sum of the subtotals stored in the current lines.
\<close>

theorem total_es_suma_de_subtotales:
  "total_carrito (foldl (\<lambda>v c. aplicar c v) init cs)
     = sum_py (map (subtotal \<circ> snd) (items_carrito (foldl (\<lambda>v c. aplicar c v) init cs)))"
proof -
  have "total_ok init" by (simp add: total_ok_def init_def sum_py_def)
  then have "total_ok (foldl (\<lambda>v c. aplicar c v) init cs)" by (rule total_ok_aplicar_todos)
  then show ?thesis by (simp add: total_ok_def)
qed

text \<open>
  C5: a signal whose gate is closed changes nothing in the workflow:
  \<^verbatim>\<open>agregar_item_carrito\<close>, \<^verbatim>\<open>remover_item_carrito\<close> and \<^verbatim>\<open>aceptar_terminos\<close>
  outside \<open>ABIERTO\<close>, \<^verbatim>\<open>completar_compra\<close> outside \<open>ABIERTO\<close> or with the terms
  not accepted, \<^verbatim>\<open>confirmar_recepcion\<close> outside \<open>ENVIADO\<close>. The handlers have no
  path that raises.
\<close>

theorem senal_fuera_de_estado_no_hace_nada:
  "(estado w \<noteq> ABIERTO \<longrightarrow>
      agregar_item_carrito it w = w \<and> remover_item_carrito k w = w \<and> aceptar_terminos w = w)
   \<and> (estado w \<noteq> ABIERTO \<or> \<not> terminos_aceptados w \<longrightarrow> completar_compra w = w)
   \<and> (estado w \<noteq> ENVIADO \<longrightarrow> confirmar_recepcion w = w)"
  by (simp add: agregar_item_carrito_def remover_item_carrito_def aceptar_terminos_def
      completar_compra_def confirmar_recepcion_def)

theorem senal_fuera_de_estado_no_hace_nada_witness:
  "estado (init\<lparr>estado := PAGADO\<rparr>) \<noteq> ABIERTO
   \<and> agregar_item_carrito un_articulo (init\<lparr>estado := PAGADO\<rparr>) = init\<lparr>estado := PAGADO\<rparr>
   \<and> remover_item_carrito ''a'' (init\<lparr>estado := PAGADO\<rparr>) = init\<lparr>estado := PAGADO\<rparr>
   \<and> aceptar_terminos (init\<lparr>estado := PAGADO\<rparr>) = init\<lparr>estado := PAGADO\<rparr>
   \<and> completar_compra (init\<lparr>estado := PAGADO\<rparr>) = init\<lparr>estado := PAGADO\<rparr>
   \<and> \<not> terminos_aceptados init \<and> completar_compra init = init
   \<and> estado init \<noteq> ENVIADO \<and> confirmar_recepcion init = init"
  using senal_fuera_de_estado_no_hace_nada [of "init\<lparr>estado := PAGADO\<rparr>" un_articulo "''a''"]
    senal_fuera_de_estado_no_hace_nada [of init un_articulo "''a''"]
  by (simp add: init_def)

text \<open>
  C9: with the cart \<open>ABIERTO\<close> and a quantity of at most 5, \<^verbatim>\<open>agregar_item_seguro\<close>
  leaves exactly the workflow that the signal \<^verbatim>\<open>agregar_item_carrito\<close> leaves for the
  same item, and answers with the new total.
\<close>

theorem agregar_item_seguro_como_senal:
  "estado w = ABIERTO \<Longrightarrow> cantidad it \<le> 5 \<Longrightarrow>
   agregar_item_seguro it w =
     (Inr \<lparr>mensaje = ''Item agregado correctamente'', item = nombre it,
           nuevo_total = total_carrito (agregar_item_carrito it w)\<rparr>,
      agregar_item_carrito it w)"
  by (simp add: agregar_item_seguro_def Let_def)

theorem agregar_item_seguro_como_senal_witness:
  "estado init = ABIERTO \<and> cantidad un_articulo \<le> 5
   \<and> agregar_item_seguro un_articulo init =
       (Inr \<lparr>mensaje = ''Item agregado correctamente'', item = ''A'', nuevo_total = 10\<rparr>,
        agregar_item_carrito un_articulo init)"
proof -
  have h1: "estado init = ABIERTO" by (simp add: init_def)
  have h2: "cantidad un_articulo \<le> 5" by (simp add: un_articulo_def)
  have t: "total_carrito (agregar_item_carrito un_articulo init) = 10"
    by (simp add: agregar_item_carrito_def init_def contiene_def recalcular_total_def
        un_articulo_def sum_py_def)
  have n: "nombre un_articulo = ''A''" by (simp add: un_articulo_def)
  show ?thesis
    using agregar_item_seguro_como_senal [OF h1 h2] h1 h2 by (simp add: t n)
qed

text \<open>
  C10: with the cart \<open>ABIERTO\<close>, \<^verbatim>\<open>remover_item_carrito\<close> of an id that is not in
  the cart changes nothing in the workflow, and removing an id twice is the same as
  removing it once.
\<close>

theorem remover_ausente_no_hace_nada:
  "(estado w = ABIERTO \<and> \<not> contiene (items_carrito w) k \<longrightarrow> remover_item_carrito k w = w)
   \<and> remover_item_carrito k (remover_item_carrito k w) = remover_item_carrito k w"
  by (simp add: remover_item_carrito_def recalcular_total_def contiene_delete)

theorem remover_ausente_no_hace_nada_witness:
  "estado init = ABIERTO \<and> \<not> contiene (items_carrito init) ''a''
   \<and> remover_item_carrito ''a'' init = init"
  using remover_ausente_no_hace_nada [of init "''a''"]
  by (simp add: init_def contiene_def)

section \<open>Properties of the shipment activity and of its retries\<close>

lemma despachar_4xx:
  "es_4xx r \<Longrightarrow>
   despachar_envio_activity rq r =
     Inl (App (ApplicationError (''Error de API no reintentable: '' @ response_text r)
                 (Some ''NonRetryableAPIError'') True))"
  by (cases r) (simp_all add: raise_for_status_def)

lemma no_reintentable_es_4xx:
  "despachar_envio_activity rq r = Inl e \<Longrightarrow> non_retryable (a_fallo e) = es_4xx r"
  by (cases r) (auto simp: raise_for_status_def split: if_splits sum.splits)

lemma no_reintentable_inmediato:
  assumes "despachar_envio_activity rq (entorno n) = Inl e" and "non_retryable (a_fallo e)"
  shows "ejecutar_actividad rq entorno n =
           (Inl \<lparr>cause = a_fallo e, retry_state = NON_RETRYABLE_FAILURE\<rparr>, Suc n)"
  using assms by (simp add: ejecutar_actividad.simps [of rq entorno n])

lemma reintento:
  assumes "despachar_envio_activity rq (entorno n) = Inl e" and "\<not> non_retryable (a_fallo e)"
    and "Suc n < maximum_attempts retry_policy"
  shows "ejecutar_actividad rq entorno n = ejecutar_actividad rq entorno (Suc n)"
  using assms by (simp add: ejecutar_actividad.simps [of rq entorno n])

lemma ultimo_intento:
  assumes "despachar_envio_activity rq (entorno n) = Inl e" and "\<not> non_retryable (a_fallo e)"
    and "maximum_attempts retry_policy \<le> Suc n"
  shows "ejecutar_actividad rq entorno n =
           (Inl \<lparr>cause = a_fallo e, retry_state = MAXIMUM_ATTEMPTS_REACHED\<rparr>, Suc n)"
  using assms by (simp add: ejecutar_actividad.simps [of rq entorno n])

lemma agotado:
  assumes "despachar_envio_activity rq (entorno 0) = Inl e0" "\<not> non_retryable (a_fallo e0)"
    and "despachar_envio_activity rq (entorno 1) = Inl e1" "\<not> non_retryable (a_fallo e1)"
    and "despachar_envio_activity rq (entorno 2) = Inl e2" "\<not> non_retryable (a_fallo e2)"
  shows "ejecutar_actividad rq entorno 0 =
           (Inl \<lparr>cause = a_fallo e2, retry_state = MAXIMUM_ATTEMPTS_REACHED\<rparr>, 3)"
proof -
  have tres: "ejecutar_actividad rq entorno (Suc (Suc 0)) =
      (Inl \<lparr>cause = a_fallo e2, retry_state = MAXIMUM_ATTEMPTS_REACHED\<rparr>, 3)"
    using ultimo_intento [of rq entorno "Suc (Suc 0)" e2] assms(5,6)
    by (simp add: retry_policy_def numeral_2_eq_2 numeral_3_eq_3)
  have dos: "ejecutar_actividad rq entorno (Suc 0) = ejecutar_actividad rq entorno (Suc (Suc 0))"
    using reintento [of rq entorno "Suc 0" e1] assms(3,4) by (simp add: retry_policy_def)
  have uno: "ejecutar_actividad rq entorno 0 = ejecutar_actividad rq entorno (Suc 0)"
    using reintento [of rq entorno 0 e0] assms(1,2) by (simp add: retry_policy_def)
  show ?thesis by (simp only: uno dos tres)
qed

text \<open>
  C6: the activity turns a response with a 4xx status into an \<^verbatim>\<open>ApplicationError\<close>
  of type \<^verbatim>\<open>NonRetryableAPIError\<close>, marked non-retryable, whose message ends with the
  text of the response; it raises again, as they are and retryable, the
  \<^verbatim>\<open>HTTPStatusError\<close> of a status of 500 or more and the \<^verbatim>\<open>RequestError\<close> of a
  transport failure. A failure of the activity is non-retryable exactly when the response
  was a 4xx one. Under the retry policy a non-retryable failure ends the activity at that
  attempt, whatever is left of the budget, and a retryable one with budget left leads to
  the next attempt.
\<close>

theorem clasificacion_de_fallos:
  "(400 \<le> st \<and> st < 500 \<longrightarrow>
      despachar_envio_activity rq (Respuesta st tx te js) =
        Inl (App (ApplicationError (''Error de API no reintentable: '' @ tx)
                    (Some ''NonRetryableAPIError'') True)))
   \<and> (500 \<le> st \<longrightarrow>
        despachar_envio_activity rq (Respuesta st tx te js) = Inl (HTTPStatusError te st tx)
        \<and> \<not> non_retryable (a_fallo (HTTPStatusError te st tx)))
   \<and> despachar_envio_activity rq (Fallo_red m) = Inl (RequestError m)
   \<and> \<not> non_retryable (a_fallo (RequestError m))
   \<and> (despachar_envio_activity rq r = Inl e \<longrightarrow> non_retryable (a_fallo e) = es_4xx r)
   \<and> (es_4xx (entorno n) \<longrightarrow>
        ejecutar_actividad rq entorno n =
          (Inl \<lparr>cause = ApplicationError
                           (''Error de API no reintentable: '' @ response_text (entorno n))
                           (Some ''NonRetryableAPIError'') True,
                 retry_state = NON_RETRYABLE_FAILURE\<rparr>, Suc n))
   \<and> (despachar_envio_activity rq (entorno n) = Inl e \<and> \<not> es_4xx (entorno n)
        \<and> Suc n < maximum_attempts retry_policy \<longrightarrow>
        ejecutar_actividad rq entorno n = ejecutar_actividad rq entorno (Suc n))"
proof -
  have a: "400 \<le> st \<and> st < 500 \<longrightarrow>
      despachar_envio_activity rq (Respuesta st tx te js) =
        Inl (App (ApplicationError (''Error de API no reintentable: '' @ tx)
                    (Some ''NonRetryableAPIError'') True))"
    by (simp add: raise_for_status_def)
  have b: "500 \<le> st \<longrightarrow>
        despachar_envio_activity rq (Respuesta st tx te js) = Inl (HTTPStatusError te st tx)
        \<and> \<not> non_retryable (a_fallo (HTTPStatusError te st tx))"
    by (simp add: raise_for_status_def)
  have c: "despachar_envio_activity rq (Fallo_red m) = Inl (RequestError m)
      \<and> \<not> non_retryable (a_fallo (RequestError m))"
    by simp
  have d: "despachar_envio_activity rq r = Inl e \<longrightarrow> non_retryable (a_fallo e) = es_4xx r"
    by (simp add: no_reintentable_es_4xx)
  have e: "es_4xx (entorno n) \<longrightarrow>
        ejecutar_actividad rq entorno n =
          (Inl \<lparr>cause = ApplicationError
                           (''Error de API no reintentable: '' @ response_text (entorno n))
                           (Some ''NonRetryableAPIError'') True,
                 retry_state = NON_RETRYABLE_FAILURE\<rparr>, Suc n)"
  proof
    assume h: "es_4xx (entorno n)"
    have "despachar_envio_activity rq (entorno n) =
        Inl (App (ApplicationError
              (''Error de API no reintentable: '' @ response_text (entorno n))
              (Some ''NonRetryableAPIError'') True))"
      using h by (rule despachar_4xx)
    from no_reintentable_inmediato [of rq entorno n, OF this]
    show "ejecutar_actividad rq entorno n =
          (Inl \<lparr>cause = ApplicationError
                           (''Error de API no reintentable: '' @ response_text (entorno n))
                           (Some ''NonRetryableAPIError'') True,
                 retry_state = NON_RETRYABLE_FAILURE\<rparr>, Suc n)"
      by simp
  qed
  have f: "despachar_envio_activity rq (entorno n) = Inl e \<and> \<not> es_4xx (entorno n)
        \<and> Suc n < maximum_attempts retry_policy \<longrightarrow>
        ejecutar_actividad rq entorno n = ejecutar_actividad rq entorno (Suc n)"
    using reintento [of rq entorno n e] no_reintentable_es_4xx [of rq "entorno n" e] by simp
  from a b c d e f show ?thesis by blast
qed

theorem clasificacion_de_fallos_witness:
  "despachar_envio_activity pedido (Respuesta 404 ''no'' ''Client error'' (Inl [])) =
     Inl (App (ApplicationError ''Error de API no reintentable: no''
                 (Some ''NonRetryableAPIError'') True))
   \<and> despachar_envio_activity pedido (Respuesta 503 ''down'' ''Server error'' (Inl [])) =
       Inl (HTTPStatusError ''Server error'' 503 ''down'')
   \<and> es_4xx (rechazo_400 0)
   \<and> ejecutar_actividad pedido rechazo_400 0 =
       (Inl \<lparr>cause = ApplicationError ''Error de API no reintentable: x''
                        (Some ''NonRetryableAPIError'') True,
              retry_state = NON_RETRYABLE_FAILURE\<rparr>, 1)
   \<and> \<not> es_4xx (caido_503 0) \<and> Suc 0 < maximum_attempts retry_policy
   \<and> ejecutar_actividad pedido caido_503 0 = ejecutar_actividad pedido caido_503 1"
  using clasificacion_de_fallos [of 404 pedido "''no''" "''Client error''" "Inl []" "[]"
      "Respuesta 404 ''no'' ''Client error'' (Inl [])"
      "App (ApplicationError ''Error de API no reintentable: no''
              (Some ''NonRetryableAPIError'') True)" rechazo_400 0]
    clasificacion_de_fallos [of 503 pedido "''down''" "''Server error''" "Inl []" "[]"
      "Respuesta 503 ''down'' ''Server error'' (Inl [])"
      "HTTPStatusError ''Server error'' 503 ''down''" caido_503 0]
  by (simp add: rechazo_400_def caido_503_def retry_policy_def raise_for_status_def)

section \<open>Properties of the lifecycle\<close>

lemma coherente_iniciar: "coherente (iniciar u i)"
  by (simp add: coherente_def iniciar_def init_def)

lemma coherente_paso:
  assumes "coherente x"
  shows "coherente (paso ev x)"
proof (cases ev)
  case (Comando c)
  then show ?thesis
    using aplicar_estado_cases [of c "self x"] assms
    by (cases "fase x") (auto simp: coherente_def paso_def continuar_def)
next
  case Timeout_30_minutos
  then show ?thesis
    using assms by (cases "fase x") (auto simp: coherente_def paso_def al_vencer_def Let_def)
next
  case (Actividad_resuelta r)
  then show ?thesis
    using assms
    by (cases "fase x"; cases r)
       (auto simp: coherente_def paso_def al_resolver_def continuar_def Let_def)
qed

lemma ejecutar_snoc: "ejecutar (evs @ [ev]) x = paso ev (ejecutar evs x)"
  by (simp add: ejecutar_def)

lemma coherente_ejecutar: "coherente x \<Longrightarrow> coherente (ejecutar evs x)"
  by (induction evs rule: rev_induct) (simp_all add: ejecutar_def coherente_paso)

lemma paso_estado:
  assumes "coherente x"
  shows "estado (self (paso ev x)) = estado (self x)
         \<or> transicion_ciclo (estado (self x)) (estado (self (paso ev x)))"
proof (cases ev)
  case (Comando c)
  then show ?thesis
    using aplicar_estado_cases [of c "self x"] assms
    by (cases "fase x") (auto simp: coherente_def paso_def continuar_def)
next
  case Timeout_30_minutos
  then show ?thesis
    using assms by (cases "fase x") (auto simp: coherente_def paso_def al_vencer_def Let_def)
next
  case (Actividad_resuelta r)
  then show ?thesis
    using assms
    by (cases "fase x"; cases r)
       (auto simp: coherente_def paso_def al_resolver_def continuar_def Let_def)
qed

lemma transicion_rango: "transicion_ciclo a b \<Longrightarrow> rango a < rango b"
  by (cases a; cases b) simp_all

lemma rango_ejecutar:
  assumes "coherente x"
  shows "rango (estado (self x)) \<le> rango (estado (self (ejecutar evs x)))"
proof (induction evs rule: rev_induct)
  case Nil
  show ?case by (simp add: ejecutar_def)
next
  case (snoc ev evs)
  have "coherente (ejecutar evs x)" using assms by (rule coherente_ejecutar)
  from paso_estado [OF this, of ev] transicion_rango
  have "rango (estado (self (ejecutar evs x)))
          \<le> rango (estado (self (paso ev (ejecutar evs x))))"
    by (auto simp: less_imp_le)
  with snoc show ?case by (simp add: ejecutar_snoc)
qed

lemma terminado_fijo: "fase x = Terminado r \<Longrightarrow> paso ev x = x"
  by (simp add: paso_def)

lemma terminado_ejecutar: "fase x = Terminado r \<Longrightarrow> ejecutar evs x = x"
  by (induction evs rule: rev_induct) (simp_all add: ejecutar_def terminado_fijo)

lemma terminado_cerrado:
  "coherente x \<Longrightarrow> fase x = Terminado r \<Longrightarrow> aplicar c (self x) = self x"
  by (rule aplicar_cerrado) (simp_all add: coherente_def)

lemma abierto_esperando_pago:
  "coherente x \<Longrightarrow> estado (self x) = ABIERTO \<Longrightarrow>
   fase x = EsperandoPago \<and> envio_resultado (self x) = [] \<and> actividades x = []"
  by (cases "fase x") (simp_all add: coherente_def)

lemma compra_pagada_eq:
  "compra_pagada =
     \<lparr>self = init\<lparr>usuario_id := ''u'', carrito_id := ''carrito-u-w'',
                   terminos_aceptados := True, estado := PAGADO\<rparr>,
      fase = EsperandoEnvio, actividades = [pedido]\<rparr>"
  by (simp add: compra_pagada_def ejecutar_def paso_def iniciar_def init_def continuar_def
      aceptar_terminos_def completar_compra_def pedido_def)

text \<open>
  C4: in every execution, one more event either leaves the state of the cart as it is or
  moves it along an edge of the lifecycle graph; over any further events the state's
  distance from \<open>ABIERTO\<close> never decreases; once \<^verbatim>\<open>run\<close> has returned, on any of
  its four outcomes, no event changes the execution and no command would change the
  workflow; and in the states \<open>ABANDONADO\<close>, \<open>ENTREGADO\<close> and \<open>CANCELADO\<close> every
  command leaves the workflow as it is.
\<close>

theorem estado_solo_avanza:
  "(estado (self (paso ev (ejecutar evs (iniciar u i))))
      = estado (self (ejecutar evs (iniciar u i)))
    \<or> transicion_ciclo (estado (self (ejecutar evs (iniciar u i))))
         (estado (self (paso ev (ejecutar evs (iniciar u i))))))
   \<and> rango (estado (self (ejecutar evs (iniciar u i))))
       \<le> rango (estado (self (ejecutar evs' (ejecutar evs (iniciar u i)))))
   \<and> (fase (ejecutar evs (iniciar u i)) = Terminado r \<longrightarrow>
        paso ev (ejecutar evs (iniciar u i)) = ejecutar evs (iniciar u i)
        \<and> aplicar c (self (ejecutar evs (iniciar u i))) = self (ejecutar evs (iniciar u i)))
   \<and> (estado w = ABANDONADO \<or> estado w = ENTREGADO \<or> estado w = CANCELADO \<longrightarrow>
        aplicar c w = w)"
proof -
  have coh: "coherente (ejecutar evs (iniciar u i))"
    by (rule coherente_ejecutar) (rule coherente_iniciar)
  have a: "estado (self (paso ev (ejecutar evs (iniciar u i))))
      = estado (self (ejecutar evs (iniciar u i)))
    \<or> transicion_ciclo (estado (self (ejecutar evs (iniciar u i))))
         (estado (self (paso ev (ejecutar evs (iniciar u i)))))"
    using coh by (rule paso_estado)
  have b: "rango (estado (self (ejecutar evs (iniciar u i))))
       \<le> rango (estado (self (ejecutar evs' (ejecutar evs (iniciar u i)))))"
    using coh by (rule rango_ejecutar)
  have c: "fase (ejecutar evs (iniciar u i)) = Terminado r \<longrightarrow>
        paso ev (ejecutar evs (iniciar u i)) = ejecutar evs (iniciar u i)
        \<and> aplicar c (self (ejecutar evs (iniciar u i))) = self (ejecutar evs (iniciar u i))"
    using coh by (simp add: terminado_fijo terminado_cerrado)
  have d: "estado w = ABANDONADO \<or> estado w = ENTREGADO \<or> estado w = CANCELADO \<longrightarrow>
        aplicar c w = w"
    by (auto intro: aplicar_cerrado)
  from a b c d show ?thesis by blast
qed

theorem estado_solo_avanza_witness:
  "fase (ejecutar [Timeout_30_minutos] (iniciar ''u'' ''w''))
     = Terminado (estado_final (self (ejecutar [Timeout_30_minutos] (iniciar ''u'' ''w'')))
                    ''ABANDONADO_TIMEOUT'')
   \<and> paso (Comando Completar_compra) (ejecutar [Timeout_30_minutos] (iniciar ''u'' ''w''))
       = ejecutar [Timeout_30_minutos] (iniciar ''u'' ''w'')
   \<and> aplicar Completar_compra (self (ejecutar [Timeout_30_minutos] (iniciar ''u'' ''w'')))
       = self (ejecutar [Timeout_30_minutos] (iniciar ''u'' ''w''))
   \<and> estado (init\<lparr>estado := ENTREGADO\<rparr>) = ENTREGADO
   \<and> aplicar Completar_compra (init\<lparr>estado := ENTREGADO\<rparr>) = init\<lparr>estado := ENTREGADO\<rparr>"
proof -
  have h: "fase (ejecutar [Timeout_30_minutos] (iniciar ''u'' ''w''))
     = Terminado (estado_final (self (ejecutar [Timeout_30_minutos] (iniciar ''u'' ''w'')))
                    ''ABANDONADO_TIMEOUT'')"
    by (simp add: ejecutar_def paso_def iniciar_def al_vencer_def Let_def)
  show ?thesis
    using h estado_solo_avanza [of "Comando Completar_compra" "[Timeout_30_minutos]"
        "''u''" "''w''" "[]"
        "estado_final (self (ejecutar [Timeout_30_minutos] (iniciar ''u'' ''w'')))
           ''ABANDONADO_TIMEOUT''"
        Completar_compra "init\<lparr>estado := ENTREGADO\<rparr>"]
    by simp
qed

text \<open>
  C8: when the timer of the first wait fires in an execution whose cart is still
  \<open>ABIERTO\<close>, so that it has reached neither \<open>PAGADO\<close> nor \<open>CANCELADO\<close>,
  \<^verbatim>\<open>run\<close> returns with the outcome \<^verbatim>\<open>ABANDONADO_TIMEOUT\<close> and the state
  \<open>ABANDONADO\<close>, no activity has been started, the shipment details of the returned
  dict are empty, and no later event changes any of this.
\<close>

theorem abandono_por_timeout:
  assumes "estado (self (ejecutar evs (iniciar u i))) = ABIERTO"
  shows "\<exists>r. fase (paso Timeout_30_minutos (ejecutar evs (iniciar u i))) = Terminado r
           \<and> resultado_workflow r = ''ABANDONADO_TIMEOUT''
           \<and> estado_carrito r = ABANDONADO
           \<and> detalles_envio r = []
           \<and> estado (self (paso Timeout_30_minutos (ejecutar evs (iniciar u i)))) = ABANDONADO
           \<and> actividades (paso Timeout_30_minutos (ejecutar evs (iniciar u i))) = []
           \<and> ejecutar evs' (paso Timeout_30_minutos (ejecutar evs (iniciar u i)))
               = paso Timeout_30_minutos (ejecutar evs (iniciar u i))"
proof -
  have "coherente (ejecutar evs (iniciar u i))"
    by (rule coherente_ejecutar) (rule coherente_iniciar)
  from abierto_esperando_pago [OF this assms]
  have p: "fase (ejecutar evs (iniciar u i)) = EsperandoPago"
    and e: "envio_resultado (self (ejecutar evs (iniciar u i))) = []"
    and a: "actividades (ejecutar evs (iniciar u i)) = []"
    by simp_all
  have t: "fase (paso Timeout_30_minutos (ejecutar evs (iniciar u i))) =
      Terminado (estado_final ((self (ejecutar evs (iniciar u i)))\<lparr>estado := ABANDONADO\<rparr>)
                   ''ABANDONADO_TIMEOUT'')"
    using p by (simp add: paso_def al_vencer_def Let_def)
  have f: "ejecutar evs' (paso Timeout_30_minutos (ejecutar evs (iniciar u i)))
               = paso Timeout_30_minutos (ejecutar evs (iniciar u i))"
    using t by (rule terminado_ejecutar)
  show ?thesis
    using p e a t f by (simp add: paso_def al_vencer_def Let_def estado_final_def)
qed

theorem abandono_por_timeout_witness:
  "estado (self (ejecutar [Comando (Agregar_item_carrito un_articulo)] (iniciar ''u'' ''w'')))
     = ABIERTO
   \<and> (\<exists>r. fase (paso Timeout_30_minutos
                  (ejecutar [Comando (Agregar_item_carrito un_articulo)] (iniciar ''u'' ''w'')))
             = Terminado r
           \<and> resultado_workflow r = ''ABANDONADO_TIMEOUT''
           \<and> detalles_envio r = [])"
proof -
  have h: "estado (self (ejecutar [Comando (Agregar_item_carrito un_articulo)]
                           (iniciar ''u'' ''w''))) = ABIERTO"
    by (simp add: ejecutar_def paso_def iniciar_def init_def continuar_def
        agregar_item_carrito_def recalcular_total_def)
  from abandono_por_timeout [OF h] h show ?thesis by blast
qed

lemma str_reintentable_no_es_rechazo:
  assumes "despachar_envio_activity rq r = Inl e" and "\<not> es_4xx r"
  shows "str_ApplicationError (a_fallo e) \<noteq> ''NonRetryableAPIError: '' @ t"
proof (cases r)
  case (Respuesta st tx te js)
  with assms show ?thesis
    by (cases js) (auto simp: raise_for_status_def str_ApplicationError_def split: if_splits)
next
  case (Fallo_red m)
  with assms show ?thesis by (auto simp: str_ApplicationError_def)
qed

lemma ejecutar_actividad_fallo:
  "ejecutar_actividad rq entorno n = (Inl a, k) \<Longrightarrow>
     (retry_state a = NON_RETRYABLE_FAILURE
        \<and> (\<exists>t. cause a = ApplicationError (''Error de API no reintentable: '' @ t)
                            (Some ''NonRetryableAPIError'') True))
     \<or> (retry_state a = MAXIMUM_ATTEMPTS_REACHED \<and> maximum_attempts retry_policy \<le> k
        \<and> \<not> non_retryable (cause a)
        \<and> (\<forall>t. str_ApplicationError (cause a) \<noteq> ''NonRetryableAPIError: '' @ t))"
proof (induction rq entorno n rule: ejecutar_actividad.induct)
  case (1 rq entorno n)
  show ?case
  proof (cases "despachar_envio_activity rq (entorno n)")
    case (Inr p)
    with "1.prems" show ?thesis by (simp add: ejecutar_actividad.simps [of rq entorno n])
  next
    case (Inl e)
    show ?thesis
    proof (cases "es_4xx (entorno n)")
      case True
      from despachar_4xx [OF True, of rq] Inl "1.prems" show ?thesis
        by (auto simp: ejecutar_actividad.simps [of rq entorno n])
    next
      case False
      with Inl have nr: "\<not> non_retryable (a_fallo e)" by (simp add: no_reintentable_es_4xx)
      show ?thesis
      proof (cases "maximum_attempts retry_policy \<le> Suc n")
        case True
        with Inl nr "1.prems" str_reintentable_no_es_rechazo [OF Inl False] show ?thesis
          by (auto simp: ejecutar_actividad.simps [of rq entorno n])
      next
        case f: False
        with Inl nr "1.prems" have "ejecutar_actividad rq entorno (Suc n) = (Inl a, k)"
          by (simp add: ejecutar_actividad.simps [of rq entorno n])
        with "1.IH" [OF Inl nr f] show ?thesis by simp
      qed
    qed
  qed
qed

lemma ejecutar_actividad_intentos:
  "ejecutar_actividad rq entorno n = (r, k) \<Longrightarrow> Suc n \<le> maximum_attempts retry_policy \<Longrightarrow>
   k \<le> maximum_attempts retry_policy"
proof (induction rq entorno n rule: ejecutar_actividad.induct)
  case (1 rq entorno n)
  show ?case
  proof (cases "despachar_envio_activity rq (entorno n)")
    case (Inr p)
    with "1.prems" show ?thesis by (auto simp: ejecutar_actividad.simps [of rq entorno n])
  next
    case (Inl e)
    show ?thesis
    proof (cases "non_retryable (a_fallo e) \<or> maximum_attempts retry_policy \<le> Suc n")
      case True
      with Inl "1.prems" show ?thesis
        by (auto simp: ejecutar_actividad.simps [of rq entorno n] split: if_splits)
    next
      case False
      with Inl "1.prems" have "ejecutar_actividad rq entorno (Suc n) = (r, k)"
        by (simp add: ejecutar_actividad.simps [of rq entorno n])
      with "1.IH" [OF Inl] False show ?thesis by simp
    qed
  qed
qed

text \<open>
  C7: with \<^verbatim>\<open>run\<close> waiting for the activity, take an activity that fails as
  non-retryable (the 4xx rejection) and one that fails with its attempts exhausted. Both
  make \<^verbatim>\<open>run\<close> return with the outcome \<^verbatim>\<open>ENVIO_FALLIDO\<close> and a shipment
  result of status \<^verbatim>\<open>FALLIDO\<close> whose error is the text of the failure's cause. The
  first cause is non-retryable and of type \<^verbatim>\<open>NonRetryableAPIError\<close>; the second is
  retryable and comes after all the attempts of the policy; and the two returned dicts
  differ.
\<close>

theorem fallo_agotado_distinto_de_rechazo:
  assumes "fase x = EsperandoEnvio"
    and "ejecutar_actividad rq rechaza 0 = (Inl a, k)"
    and "retry_state a = NON_RETRYABLE_FAILURE"
    and "ejecutar_actividad rq falla 0 = (Inl b, k')"
    and "retry_state b = MAXIMUM_ATTEMPTS_REACHED"
  shows "fase (paso (Actividad_resuelta (Inl a)) x) =
           Terminado (estado_final
             ((self x)\<lparr>envio_resultado :=
                [(''status'', ''FALLIDO''), (''error'', str_ApplicationError (cause a))]\<rparr>)
             ''ENVIO_FALLIDO'')
         \<and> fase (paso (Actividad_resuelta (Inl b)) x) =
           Terminado (estado_final
             ((self x)\<lparr>envio_resultado :=
                [(''status'', ''FALLIDO''), (''error'', str_ApplicationError (cause b))]\<rparr>)
             ''ENVIO_FALLIDO'')
         \<and> non_retryable (cause a) \<and> type (cause a) = Some ''NonRetryableAPIError''
         \<and> \<not> non_retryable (cause b) \<and> k' = maximum_attempts retry_policy
         \<and> fase (paso (Actividad_resuelta (Inl a)) x)
             \<noteq> fase (paso (Actividad_resuelta (Inl b)) x)"
proof -
  from ejecutar_actividad_fallo [OF assms(2)] assms(3)
  obtain t where ca: "cause a = ApplicationError (''Error de API no reintentable: '' @ t)
                                  (Some ''NonRetryableAPIError'') True"
    by auto
  from ejecutar_actividad_fallo [OF assms(4)] assms(5)
  have cb: "\<not> non_retryable (cause b)"
    and kb: "maximum_attempts retry_policy \<le> k'"
    and sb: "str_ApplicationError (cause b)
               \<noteq> ''NonRetryableAPIError: '' @ (''Error de API no reintentable: '' @ t)"
    by auto
  have sa: "str_ApplicationError (cause a)
              = ''NonRetryableAPIError: '' @ (''Error de API no reintentable: '' @ t)"
    by (simp add: ca str_ApplicationError_def)
  have "k' \<le> maximum_attempts retry_policy"
    using assms(4) by (rule ejecutar_actividad_intentos) (simp add: retry_policy_def)
  with kb have k3: "k' = maximum_attempts retry_policy" by simp
  have fa: "fase (paso (Actividad_resuelta (Inl a)) x) =
           Terminado (estado_final
             ((self x)\<lparr>envio_resultado :=
                [(''status'', ''FALLIDO''), (''error'', str_ApplicationError (cause a))]\<rparr>)
             ''ENVIO_FALLIDO'')"
    using assms(1) by (simp add: paso_def al_resolver_def Let_def)
  have fb: "fase (paso (Actividad_resuelta (Inl b)) x) =
           Terminado (estado_final
             ((self x)\<lparr>envio_resultado :=
                [(''status'', ''FALLIDO''), (''error'', str_ApplicationError (cause b))]\<rparr>)
             ''ENVIO_FALLIDO'')"
    using assms(1) by (simp add: paso_def al_resolver_def Let_def)
  have ne: "fase (paso (Actividad_resuelta (Inl a)) x)
             \<noteq> fase (paso (Actividad_resuelta (Inl b)) x)"
    using sb sa by (simp add: fa fb estado_final_def)
  from fa fb ca cb k3 ne show ?thesis by simp
qed

theorem fallo_agotado_distinto_de_rechazo_witness:
  "fase compra_pagada = EsperandoEnvio
   \<and> ejecutar_actividad pedido rechazo_400 0 =
       (Inl \<lparr>cause = ApplicationError ''Error de API no reintentable: x''
                        (Some ''NonRetryableAPIError'') True,
              retry_state = NON_RETRYABLE_FAILURE\<rparr>, 1)
   \<and> ejecutar_actividad pedido caido_503 0 =
       (Inl \<lparr>cause = ApplicationError ''Server error'' (Some ''HTTPStatusError'') False,
              retry_state = MAXIMUM_ATTEMPTS_REACHED\<rparr>, 3)
   \<and> fase (paso (Actividad_resuelta
              (Inl \<lparr>cause = ApplicationError ''Error de API no reintentable: x''
                               (Some ''NonRetryableAPIError'') True,
                     retry_state = NON_RETRYABLE_FAILURE\<rparr>)) compra_pagada)
       \<noteq> fase (paso (Actividad_resuelta
              (Inl \<lparr>cause = ApplicationError ''Server error'' (Some ''HTTPStatusError'') False,
                     retry_state = MAXIMUM_ATTEMPTS_REACHED\<rparr>)) compra_pagada)"
proof -
  have h: "fase compra_pagada = EsperandoEnvio" by (simp add: compra_pagada_eq)
  have a: "ejecutar_actividad pedido rechazo_400 0 =
       (Inl \<lparr>cause = ApplicationError ''Error de API no reintentable: x''
                        (Some ''NonRetryableAPIError'') True,
              retry_state = NON_RETRYABLE_FAILURE\<rparr>, 1)"
    by (simp add: ejecutar_actividad.simps [of pedido rechazo_400 0] rechazo_400_def
        raise_for_status_def)
  have e: "despachar_envio_activity pedido (caido_503 n)
             = Inl (HTTPStatusError ''Server error'' 503 ''down'')" for n
    by (simp add: caido_503_def raise_for_status_def)
  have b: "ejecutar_actividad pedido caido_503 0 =
       (Inl \<lparr>cause = ApplicationError ''Server error'' (Some ''HTTPStatusError'') False,
              retry_state = MAXIMUM_ATTEMPTS_REACHED\<rparr>, 3)"
    using agotado [of pedido caido_503, OF e [of 0] _ e [of 1] _ e [of 2]] by simp
  have ra: "retry_state \<lparr>cause = ApplicationError ''Error de API no reintentable: x''
                                   (Some ''NonRetryableAPIError'') True,
                          retry_state = NON_RETRYABLE_FAILURE\<rparr> = NON_RETRYABLE_FAILURE"
    by simp
  have rb: "retry_state \<lparr>cause = ApplicationError ''Server error''
                                   (Some ''HTTPStatusError'') False,
                          retry_state = MAXIMUM_ATTEMPTS_REACHED\<rparr> = MAXIMUM_ATTEMPTS_REACHED"
    by simp
  have "fase (paso (Actividad_resuelta
              (Inl \<lparr>cause = ApplicationError ''Error de API no reintentable: x''
                               (Some ''NonRetryableAPIError'') True,
                     retry_state = NON_RETRYABLE_FAILURE\<rparr>)) compra_pagada)
       \<noteq> fase (paso (Actividad_resuelta
              (Inl \<lparr>cause = ApplicationError ''Server error'' (Some ''HTTPStatusError'') False,
                     retry_state = MAXIMUM_ATTEMPTS_REACHED\<rparr>)) compra_pagada)"
    using fallo_agotado_distinto_de_rechazo [OF h a ra b rb] by (elim conjE)
  with h a b show ?thesis by (intro conjI)
qed

end
